theory Spec2Isabelle
  imports Main
begin

section \<open>Data model\<close>

text \<open>
  The rows of the three tables the dashboard components read and write through the
  Supabase client. Identifiers are uuid strings in the source; they are only ever compared
  for equality, so they are natural numbers here. Timestamps are ISO strings in the source
  and clock readings here.
\<close>

type_synonym ident = nat
type_synonym timestamp = nat

text \<open>\<^verbatim>\<open>interface Book\<close> of BooksList (the fields \<^verbatim>\<open>handleRequestBook\<close> reads,
  and the ones the card renders).\<close>

record book =
  book_id :: ident
  book_title :: string
  book_author :: string
  book_description :: string
  book_status :: string
  book_isfeatured :: bool
  book_donorid :: ident

text \<open>\<^verbatim>\<open>interface BookRequest\<close> of MyRequests, as a row of \<^verbatim>\<open>book_requests\<close>
  (\<^verbatim>\<open>status\<close> is a string in the source), with the \<^verbatim>\<open>updated_at\<close> column the
  extended \<^verbatim>\<open>handleRequestResponse\<close> writes.\<close>

record book_request =
  br_id :: ident
  br_status :: string
  br_message :: string
  br_created_at :: timestamp
  br_updated_at :: timestamp
  br_book_id :: ident
  br_requester_id :: ident
  br_donor_id :: ident

text \<open>\<^verbatim>\<open>interface Notification\<close> of Notifications, with the recipient column
  \<^verbatim>\<open>userid\<close>.\<close>

record notification =
  n_id :: ident
  n_userid :: ident
  n_type :: string
  n_title :: string
  n_message :: string
  n_read :: bool
  n_createdat :: timestamp

text \<open>\<^verbatim>\<open>interface ContactExchange\<close> of MyRequests; a column that was never written is
  null (\<open>None\<close>).\<close>

record contact_exchange =
  ce_id :: ident
  ce_request_id :: ident
  donor_phone :: "string option"
  donor_address :: "string option"
  requester_phone :: "string option"
  requester_address :: "string option"

record store =
  book_requests :: "book_request list"
  notifications :: "notification list"
  contact_exchanges :: "contact_exchange list"
  next_id :: ident

text \<open>
  What one invocation of a handler cannot control: which of its store calls fail (the
  calls of an invocation are numbered from 0 in program order) and the clock.
\<close>

record env =
  fails :: "nat \<Rightarrow> bool"
  now :: timestamp

text \<open>The toast a handler shows; a handler that returns silently shows none.\<close>

record toast =
  toast_title :: string
  toast_description :: string
  toast_destructive :: bool

section \<open>The store client\<close>

text \<open>
  The Supabase client is an external collaborator. Its calls never throw: each returns a
  pair of \<^verbatim>\<open>data\<close> and \<^verbatim>\<open>error\<close>. A failed write leaves the table as it was.
\<close>

datatype store_error = StoreFailure | NotSingleRow

text \<open>\<^verbatim>\<open>from('book_requests').select('id').eq('book_id', b).eq('requester_id', u).eq('status', 'pending')\<close>\<close>

definition select_pending :: "store \<Rightarrow> ident \<Rightarrow> ident \<Rightarrow> book_request list" where
  "select_pending s b u =
     filter (\<lambda>r. br_book_id r = b \<and> br_requester_id r = u \<and> br_status r = ''pending'')
       (book_requests s)"

text \<open>\<^verbatim>\<open>.single()\<close>: the data is the row when the query matched exactly one row; with no
  row or several, and when the query itself fails, the data is null and the error is set.\<close>

definition single :: "bool \<Rightarrow> 'a list \<Rightarrow> 'a option \<times> store_error option" where
  "single failed rows =
     (if failed then (None, Some StoreFailure)
      else (case rows of
              [r] \<Rightarrow> (Some r, None)
            | _ \<Rightarrow> (None, Some NotSingleRow)))"

text \<open>Modelled from the spec: the column defaults of \<^verbatim>\<open>book_requests\<close> (the schema is not
  among the sources). The insert of \<^verbatim>\<open>handleRequestBook\<close> gives \<^verbatim>\<open>book_id\<close>,
  \<^verbatim>\<open>requester_id\<close>, \<^verbatim>\<open>donor_id\<close> and \<^verbatim>\<open>message\<close>; a created request is
  \<^verbatim>\<open>pending\<close>, and the store gives it an id and its timestamps.\<close>

definition insert_book_request ::
  "bool \<Rightarrow> timestamp \<Rightarrow> ident \<Rightarrow> ident \<Rightarrow> ident \<Rightarrow> string \<Rightarrow> store \<Rightarrow> store \<times> store_error option" where
  "insert_book_request failed t b u d msg s =
     (if failed then (s, Some StoreFailure)
      else (s\<lparr>book_requests := book_requests s @
                [\<lparr>br_id = next_id s, br_status = ''pending'', br_message = msg,
                  br_created_at = t, br_updated_at = t,
                  br_book_id = b, br_requester_id = u, br_donor_id = d\<rparr>],
              next_id := Suc (next_id s)\<rparr>, None))"

text \<open>Modelled from the spec: the column defaults of \<^verbatim>\<open>notifications\<close>. The insert gives
  \<^verbatim>\<open>userid\<close>, \<^verbatim>\<open>type\<close>, \<^verbatim>\<open>title\<close> and \<^verbatim>\<open>message\<close>; a created notification is
  unread.\<close>

definition insert_notification ::
  "bool \<Rightarrow> timestamp \<Rightarrow> ident \<Rightarrow> string \<Rightarrow> string \<Rightarrow> string \<Rightarrow> store \<Rightarrow> store \<times> store_error option" where
  "insert_notification failed t u ty ti msg s =
     (if failed then (s, Some StoreFailure)
      else (s\<lparr>notifications := notifications s @
                [\<lparr>n_id = next_id s, n_userid = u, n_type = ty, n_title = ti,
                  n_message = msg, n_read = False, n_createdat = t\<rparr>],
              next_id := Suc (next_id s)\<rparr>, None))"

text \<open>Modelled from the spec: the server-side procedure \<^verbatim>\<open>create_book_notification\<close>,
  which is not among the sources: invoked with the recipient, type, title and message, it is
  equivalent to the direct insert.\<close>

definition rpc_create_book_notification ::
  "bool \<Rightarrow> timestamp \<Rightarrow> ident \<Rightarrow> string \<Rightarrow> string \<Rightarrow> string \<Rightarrow> store \<Rightarrow> store \<times> store_error option" where
  "rpc_create_book_notification = insert_notification"

text \<open>\<^verbatim>\<open>from('book_requests').update(payload).eq('id', requestId)\<close>: the payload is the
  function that overwrites its columns in a row.\<close>

definition update_book_requests ::
  "bool \<Rightarrow> (book_request \<Rightarrow> book_request) \<Rightarrow> ident \<Rightarrow> store \<Rightarrow> store \<times> store_error option" where
  "update_book_requests failed payload rid s =
     (if failed then (s, Some StoreFailure)
      else (s\<lparr>book_requests :=
                map (\<lambda>r. if br_id r = rid then payload r else r) (book_requests s)\<rparr>, None))"

section \<open>BooksList: requesting a book\<close>

definition dq :: string where
  "dq = [CHR 0x22]"

definition request_message :: "book \<Rightarrow> string" where
  "request_message b =
     ''I would like to borrow '' @ dq @ book_title b @ dq @ '' by '' @ book_author b @ ''.''"

definition already_requested_toast :: toast where
  "already_requested_toast =
     \<lparr>toast_title = ''Already Requested'',
      toast_description = ''You have already requested this book.'',
      toast_destructive = True\<rparr>"

definition request_sent_toast :: "book \<Rightarrow> toast" where
  "request_sent_toast b =
     \<lparr>toast_title = ''Request Sent'',
      toast_description =
        ''Your request for '' @ dq @ book_title b @ dq @ '' has been sent to the donor.'',
      toast_destructive = False\<rparr>"

definition request_error_toast :: toast where
  "request_error_toast =
     \<lparr>toast_title = ''Error'',
      toast_description = ''Failed to send book request. Please try again.'',
      toast_destructive = True\<rparr>"

text \<open>
  The base \<^verbatim>\<open>handleRequestBook\<close>. Call 0 is the existence query, of which only
  \<^verbatim>\<open>data\<close> is destructured; call 1 the insert of the request; call 2 the insert of the
  donor's notification. Both inserts throw their error into the \<^verbatim>\<open>catch\<close>, which
  shows the error toast and undoes nothing.
\<close>

definition handleRequestBook ::
  "ident option \<Rightarrow> book \<Rightarrow> env \<Rightarrow> store \<Rightarrow> store \<times> toast option" where
  "handleRequestBook user b e s =
     (case user of
        None \<Rightarrow> (s, None)
      | Some uid \<Rightarrow>
          (case fst (single (fails e 0) (select_pending s (book_id b) uid)) of
             Some existingRequest \<Rightarrow> (s, Some already_requested_toast)
           | None \<Rightarrow>
               (case insert_book_request (fails e 1) (now e) (book_id b) uid (book_donorid b)
                       (request_message b) s of
                  (s1, Some requestError) \<Rightarrow> (s1, Some request_error_toast)
                | (s1, None) \<Rightarrow>
                    (case insert_notification (fails e 2) (now e) (book_donorid b)
                            ''book_request'' ''New Book Request''
                            (''Someone wants to borrow your book '' @ dq @ book_title b @ dq) s1 of
                       (s2, Some notificationError) \<Rightarrow> (s2, Some request_error_toast)
                     | (s2, None) \<Rightarrow> (s2, Some (request_sent_toast b))))))"

text \<open>\<^verbatim>\<open>createNotification\<close> of the extended components: the result of the procedure call
  is not inspected and an exception is caught and logged, so a failure has no effect on the
  caller.\<close>

definition createNotification ::
  "bool \<Rightarrow> timestamp \<Rightarrow> ident \<Rightarrow> string \<Rightarrow> string \<Rightarrow> string \<Rightarrow> store \<Rightarrow> store" where
  "createNotification failed t u ty ti msg s =
     fst (rpc_create_book_notification failed t u ty ti msg s)"

text \<open>
  The extended \<^verbatim>\<open>handleRequestBook\<close>, with the set \<^verbatim>\<open>requestingBooks\<close> of the books
  whose request is in flight: the handler returns at once for a book in the set, and
  otherwise adds the book for the duration of the call and removes it in \<^verbatim>\<open>finally\<close>.
  Calls 0 and 1 are as in the base handler; calls 2 and 3 are the notifications of the donor
  and of the requester.
\<close>

definition handleRequestBook_ext ::
  "ident option \<Rightarrow> book \<Rightarrow> ident set \<Rightarrow> env \<Rightarrow> store \<Rightarrow> store \<times> ident set \<times> toast option" where
  "handleRequestBook_ext user b requestingBooks e s =
     (case user of
        None \<Rightarrow> (s, requestingBooks, None)
      | Some uid \<Rightarrow>
          if book_id b \<in> requestingBooks then (s, requestingBooks, None)
          else
            (let requesting = insert (book_id b) requestingBooks;
                 released = requesting - {book_id b}
             in case fst (single (fails e 0) (select_pending s (book_id b) uid)) of
                  Some existingRequest \<Rightarrow> (s, released, Some already_requested_toast)
                | None \<Rightarrow>
                    (case insert_book_request (fails e 1) (now e) (book_id b) uid (book_donorid b)
                            (request_message b) s of
                       (s1, Some requestError) \<Rightarrow> (s1, released, Some request_error_toast)
                     | (s1, None) \<Rightarrow>
                         (let s2 = createNotification (fails e 2) (now e) (book_donorid b)
                                     ''book_request'' ''New Book Request''
                                     (''Someone wants to borrow your book '' @ dq @ book_title b @ dq) s1;
                              s3 = createNotification (fails e 3) (now e) uid
                                     ''request_sent'' ''Request Sent''
                                     (''Your request for '' @ dq @ book_title b @ dq
                                        @ '' has been sent to the donor.'') s2
                          in (s3, released, Some (request_sent_toast b))))))"

section \<open>MyRequests: responding to a request\<close>

text \<open>The parameter \<^verbatim>\<open>status: 'approved' | 'rejected'\<close> of \<^verbatim>\<open>handleRequestResponse\<close>.\<close>

datatype decision = Approved | Rejected

definition decision_text :: "decision \<Rightarrow> string" where
  "decision_text d = (case d of Approved \<Rightarrow> ''approved'' | Rejected \<Rightarrow> ''rejected'')"

definition response_title :: "decision \<Rightarrow> string" where
  "response_title d = ''Book Request '' @ (if d = Approved then ''Approved'' else ''Rejected'')"

definition response_message :: "decision \<Rightarrow> string \<Rightarrow> string" where
  "response_message d bookTitle =
     ''Your request for '' @ dq @ bookTitle @ dq @ '' has been '' @ decision_text d @ ''.''"

definition request_updated_toast :: "decision \<Rightarrow> toast" where
  "request_updated_toast d =
     \<lparr>toast_title = ''Request Updated'',
      toast_description = ''Request has been '' @ decision_text d @ ''.'',
      toast_destructive = False\<rparr>"

definition update_error_toast :: toast where
  "update_error_toast =
     \<lparr>toast_title = ''Error'',
      toast_description = ''Failed to update request. Please try again.'',
      toast_destructive = True\<rparr>"

text \<open>
  The base \<^verbatim>\<open>handleRequestResponse\<close>. Call 0 updates the column \<^verbatim>\<open>status\<close> of the
  rows whose id is \<^verbatim>\<open>requestId\<close>, whatever their status; call 1 inserts the
  requester's notification. Each throws its error into the \<^verbatim>\<open>catch\<close>.
\<close>

definition handleRequestResponse ::
  "ident \<Rightarrow> decision \<Rightarrow> ident \<Rightarrow> string \<Rightarrow> env \<Rightarrow> store \<Rightarrow> store \<times> toast option" where
  "handleRequestResponse requestId status requesterId bookTitle e s =
     (case update_book_requests (fails e 0) (\<lambda>r. r\<lparr>br_status := decision_text status\<rparr>)
             requestId s of
        (s1, Some error) \<Rightarrow> (s1, Some update_error_toast)
      | (s1, None) \<Rightarrow>
          (case insert_notification (fails e 1) (now e) requesterId ''request_response''
                  (response_title status) (response_message status bookTitle) s1 of
             (s2, Some notificationError) \<Rightarrow> (s2, Some update_error_toast)
           | (s2, None) \<Rightarrow> (s2, Some (request_updated_toast status))))"

text \<open>
  The extended \<^verbatim>\<open>handleRequestResponse\<close>, with the set \<^verbatim>\<open>processingRequests\<close> of the
  requests whose response is in flight. Call 0 updates \<^verbatim>\<open>status\<close> and
  \<^verbatim>\<open>updated_at\<close> (the client's clock); calls 1 and 2 are the notifications of the
  requester and, when a user is signed in, of the donor. Both handlers end a successful
  response with \<^verbatim>\<open>fetchRequests()\<close>, which only reads.
\<close>

definition handleRequestResponse_ext ::
  "ident option \<Rightarrow> ident set \<Rightarrow> ident \<Rightarrow> decision \<Rightarrow> ident \<Rightarrow> string \<Rightarrow> env \<Rightarrow> store
     \<Rightarrow> store \<times> ident set \<times> toast option" where
  "handleRequestResponse_ext user processingRequests requestId status requesterId bookTitle e s =
     (if requestId \<in> processingRequests then (s, processingRequests, None)
      else
        (let processing = insert requestId processingRequests;
             released = processing - {requestId}
         in case update_book_requests (fails e 0)
                   (\<lambda>r. r\<lparr>br_status := decision_text status, br_updated_at := now e\<rparr>)
                   requestId s of
              (s1, Some error) \<Rightarrow> (s1, released, Some update_error_toast)
            | (s1, None) \<Rightarrow>
                (let s2 = createNotification (fails e 1) (now e) requesterId ''request_response''
                            (response_title status) (response_message status bookTitle) s1;
                     s3 = (case user of
                             None \<Rightarrow> s2
                           | Some uid \<Rightarrow>
                               createNotification (fails e 2) (now e) uid ''request_action''
                                 ''Request Updated''
                                 (''You have '' @ decision_text status @ '' the request for ''
                                    @ dq @ bookTitle @ dq @ ''.'') s2)
                 in (s3, released, Some (request_updated_toast status)))))"

text \<open>The Approve and Reject buttons of a received request are rendered only while the
  fetched copy of the request is pending; they pass the request's own requester.\<close>

definition response_buttons_shown :: "book_request \<Rightarrow> bool" where
  "response_buttons_shown request = (br_status request = ''pending'')"

section \<open>ContactExchange: sharing and revealing contact details\<close>

text \<open>\<^verbatim>\<open>String.prototype.trim\<close> on strings of 8-bit characters. It drops, at both ends,
  the white space and the line terminators of ECMAScript; those among the 8-bit characters
  are tab, line feed, vertical tab, form feed, carriage return, space and the no-break space
  U+00A0.\<close>

definition is_space :: "char \<Rightarrow> bool" where
  "is_space c =
     (c \<in> set [CHR 0x09, CHR 0x0A, CHR 0x0B, CHR 0x0C, CHR 0x0D, CHR 0x20, CHR 0xA0])"

definition trim :: "string \<Rightarrow> string" where
  "trim x = rev (dropWhile is_space (rev (dropWhile is_space x)))"

text \<open>\<^verbatim>\<open>updateData\<close>: the caller's own two columns.\<close>

definition updateData :: "bool \<Rightarrow> string \<Rightarrow> string \<Rightarrow> contact_exchange \<Rightarrow> contact_exchange" where
  "updateData isDonor phone address x =
     (if isDonor then x\<lparr>donor_phone := Some phone, donor_address := Some address\<rparr>
      else x\<lparr>requester_phone := Some phone, requester_address := Some address\<rparr>)"

text \<open>\<^verbatim>\<open>from('contact_exchanges').update(updateData).eq('request_id', requestId)\<close>\<close>

definition update_contact_exchanges ::
  "bool \<Rightarrow> (contact_exchange \<Rightarrow> contact_exchange) \<Rightarrow> ident \<Rightarrow> store \<Rightarrow> store \<times> store_error option" where
  "update_contact_exchanges failed payload rid s =
     (if failed then (s, Some StoreFailure)
      else (s\<lparr>contact_exchanges :=
                map (\<lambda>x. if ce_request_id x = rid then payload x else x) (contact_exchanges s)\<rparr>,
            None))"

text \<open>Modelled from the spec: the column defaults of \<^verbatim>\<open>contact_exchanges\<close> (the schema is
  not among the sources): each contact column is null until its party shares. The insert is
  \<^verbatim>\<open>from('contact_exchanges').insert({request_id: requestId, ...updateData})\<close>, so the
  counterpart's columns of the new row are null.\<close>

definition insert_contact_exchange ::
  "bool \<Rightarrow> ident \<Rightarrow> (contact_exchange \<Rightarrow> contact_exchange) \<Rightarrow> store \<Rightarrow> store \<times> store_error option" where
  "insert_contact_exchange failed rid payload s =
     (if failed then (s, Some StoreFailure)
      else (s\<lparr>contact_exchanges := contact_exchanges s @
                [payload \<lparr>ce_id = next_id s, ce_request_id = rid,
                          donor_phone = None, donor_address = None,
                          requester_phone = None, requester_address = None\<rparr>],
              next_id := Suc (next_id s)\<rparr>, None))"

definition contact_shared_toast :: toast where
  "contact_shared_toast =
     \<lparr>toast_title = ''Contact Shared'',
      toast_description = ''Your contact details have been shared successfully.'',
      toast_destructive = False\<rparr>"

definition contact_error_toast :: toast where
  "contact_error_toast =
     \<lparr>toast_title = ''Error'',
      toast_description = ''Failed to share contact details. Please try again.'',
      toast_destructive = True\<rparr>"

text \<open>
  \<^verbatim>\<open>handleSubmit\<close> of ContactExchange. \<^verbatim>\<open>existingExchange\<close> is the component's
  property: the exchange of the request as the parent fetched it. The one store call (call 0)
  is an update when the property is set and an insert otherwise. On success the handler calls
  \<^verbatim>\<open>onContactShared\<close>, the parent's \<^verbatim>\<open>fetchRequests\<close>, which only reads; the flag
  \<^verbatim>\<open>loading\<close>, which disables the button during the call, is left out.
\<close>

definition handleSubmit ::
  "ident option \<Rightarrow> bool \<Rightarrow> ident \<Rightarrow> contact_exchange option \<Rightarrow> string \<Rightarrow> string \<Rightarrow> env \<Rightarrow> store
     \<Rightarrow> store \<times> toast option" where
  "handleSubmit user isDonor requestId existingExchange phone address e s =
     (if user = None \<or> trim phone = [] \<or> trim address = [] then (s, None)
      else
        (case (case existingExchange of
                 Some x \<Rightarrow>
                   update_contact_exchanges (fails e 0) (updateData isDonor phone address)
                     requestId s
               | None \<Rightarrow>
                   insert_contact_exchange (fails e 0) requestId
                     (updateData isDonor phone address) s) of
           (s1, Some error) \<Rightarrow> (s1, Some contact_error_toast)
         | (s1, None) \<Rightarrow> (s1, Some contact_shared_toast)))"

text \<open>\<^verbatim>\<open>existingExchange?.[column]\<close> and the truth value JavaScript gives it: null,
  undefined and the empty string are false.\<close>

definition column_of ::
  "contact_exchange option \<Rightarrow> (contact_exchange \<Rightarrow> string option) \<Rightarrow> string option" where
  "column_of existingExchange column =
     (case existingExchange of None \<Rightarrow> None | Some x \<Rightarrow> column x)"

definition truthy :: "string option \<Rightarrow> bool" where
  "truthy v = (case v of None \<Rightarrow> False | Some x \<Rightarrow> x \<noteq> [])"

text \<open>What the component renders: the form, or the notice that the viewer has shared with,
  below it, the counterpart's phone and address when the counterpart's phone is set.\<close>

datatype contact_panel = ShareForm | SharedNotice "(string \<times> string option) option"

definition ContactExchange_render :: "bool \<Rightarrow> contact_exchange option \<Rightarrow> contact_panel" where
  "ContactExchange_render isDonor existingExchange =
     (let hasSharedContact =
            column_of existingExchange (if isDonor then donor_phone else requester_phone);
          otherPersonContact =
            column_of existingExchange (if isDonor then requester_phone else donor_phone);
          otherPersonAddress =
            column_of existingExchange (if isDonor then requester_address else donor_address)
      in if \<not> truthy hasSharedContact then ShareForm
         else SharedNotice
                (case otherPersonContact of
                   None \<Rightarrow> None
                 | Some p \<Rightarrow> if p \<noteq> [] then Some (p, otherPersonAddress) else None))"



section \<open>Notifications: marking as read\<close>

text \<open>\<^verbatim>\<open>from('notifications').update({ read: true })\<close> on the rows a filter selects.\<close>

definition update_notifications_read ::
  "bool \<Rightarrow> (notification \<Rightarrow> bool) \<Rightarrow> store \<Rightarrow> store \<times> store_error option" where
  "update_notifications_read failed selected s =
     (if failed then (s, Some StoreFailure)
      else (s\<lparr>notifications :=
                map (\<lambda>n. if selected n then n\<lparr>n_read := True\<rparr> else n) (notifications s)\<rparr>,
            None))"

definition all_read_toast :: toast where
  "all_read_toast =
     \<lparr>toast_title = ''Success'',
      toast_description = ''All notifications marked as read.'',
      toast_destructive = False\<rparr>"

definition read_error_toast :: toast where
  "read_error_toast =
     \<lparr>toast_title = ''Error'',
      toast_description = ''Failed to mark notifications as read.'',
      toast_destructive = True\<rparr>"

text \<open>
  \<^verbatim>\<open>markAllAsRead\<close>: the update is filtered by \<^verbatim>\<open>userid = user.id\<close> and
  \<^verbatim>\<open>read = false\<close>. The second argument is the component's state \<^verbatim>\<open>notifications\<close>,
  the user's notifications as last fetched, which is marked read on success.
\<close>

definition markAllAsRead ::
  "ident option \<Rightarrow> notification list \<Rightarrow> env \<Rightarrow> store
     \<Rightarrow> store \<times> notification list \<times> toast option" where
  "markAllAsRead user fetched e s =
     (case user of
        None \<Rightarrow> (s, fetched, None)
      | Some uid \<Rightarrow>
          (case update_notifications_read (fails e 0)
                  (\<lambda>n. n_userid n = uid \<and> n_read n = False) s of
             (s1, Some error) \<Rightarrow> (s1, fetched, Some read_error_toast)
           | (s1, None) \<Rightarrow>
               (s1, map (\<lambda>notif. notif\<lparr>n_read := True\<rparr>) fetched, Some all_read_toast)))"

text \<open>The counterpart's two columns, as the viewer of role \<open>isDonor\<close> sees them.\<close>

definition counterpart_columns :: "bool \<Rightarrow> contact_exchange \<Rightarrow> string option \<times> string option" where
  "counterpart_columns isDonor x =
     (if isDonor then (requester_phone x, requester_address x)
      else (donor_phone x, donor_address x))"

section \<open>The example scenario\<close>

text \<open>
  User 10 lists ``Dune'' by Frank Herbert and user 20 requests it. The stores below are the
  states the scenario goes through; the theorems evaluate the handlers on them.
\<close>

definition dune :: book where
  "dune = \<lparr>book_id = 1, book_title = ''Dune'', book_author = ''Frank Herbert'',
           book_description = [], book_status = ''available'', book_isfeatured = False,
           book_donorid = 10\<rparr>"

definition empty_store :: store where
  "empty_store =
     \<lparr>book_requests = [], notifications = [], contact_exchanges = [], next_id = 100\<rparr>"

definition all_ok :: env where
  "all_ok = \<lparr>fails = (\<lambda>k. False), now = 5\<rparr>"

definition only_fails :: "nat \<Rightarrow> env" where
  "only_fails k = \<lparr>fails = (\<lambda>j. j = k), now = 6\<rparr>"

definition pending_dune :: book_request where
  "pending_dune =
     \<lparr>br_id = 100, br_status = ''pending'',
      br_message = ''I would like to borrow '' @ dq @ ''Dune'' @ dq @ '' by Frank Herbert.'',
      br_created_at = 5, br_updated_at = 5, br_book_id = 1, br_requester_id = 20,
      br_donor_id = 10\<rparr>"

definition new_request_notification :: notification where
  "new_request_notification =
     \<lparr>n_id = 101, n_userid = 10, n_type = ''book_request'', n_title = ''New Book Request'',
      n_message = ''Someone wants to borrow your book '' @ dq @ ''Dune'' @ dq,
      n_read = False, n_createdat = 5\<rparr>"

definition requested_store :: store where
  "requested_store =
     \<lparr>book_requests = [pending_dune], notifications = [new_request_notification],
      contact_exchanges = [], next_id = 102\<rparr>"

definition approved_store :: store where
  "approved_store =
     \<lparr>book_requests = [pending_dune\<lparr>br_status := ''approved''\<rparr>],
      notifications = [new_request_notification], contact_exchanges = [], next_id = 102\<rparr>"

definition donor_shared :: contact_exchange where
  "donor_shared =
     \<lparr>ce_id = 102, ce_request_id = 100,
      donor_phone = Some ''555-0200'', donor_address = Some ''9 Elm Ave'',
      requester_phone = None, requester_address = None\<rparr>"

section \<open>Properties\<close>

lemmas store_client_defs =
  single_def select_pending_def insert_book_request_def insert_notification_def
  rpc_create_book_notification_def createNotification_def update_book_requests_def

lemmas scenario_defs =
  dune_def empty_store_def all_ok_def only_fails_def pending_dune_def
  new_request_notification_def requested_store_def approved_store_def donor_shared_def

subsection \<open>Facts about the store client and the views\<close>




lemma updateData_keeps_key [simp]:
  "ce_request_id (updateData isDonor phone address x) = ce_request_id x"
  "ce_id (updateData isDonor phone address x) = ce_id x"
  by (simp_all add: updateData_def)

lemma updateData_counterpart [simp]:
  "counterpart_columns isDonor (updateData isDonor phone address x) = counterpart_columns isDonor x"
  by (simp add: updateData_def counterpart_columns_def)

lemma handleSubmit_cases:
  "fst (handleSubmit user isDonor requestId existingExchange phone address e s) = s \<or>
   fst (handleSubmit user isDonor requestId existingExchange phone address e s)
     = s\<lparr>contact_exchanges :=
           map (\<lambda>x. if ce_request_id x = requestId then updateData isDonor phone address x else x)
             (contact_exchanges s)\<rparr> \<or>
   fst (handleSubmit user isDonor requestId existingExchange phone address e s)
     = s\<lparr>contact_exchanges := contact_exchanges s @
           [updateData isDonor phone address
              \<lparr>ce_id = next_id s, ce_request_id = requestId,
               donor_phone = None, donor_address = None,
               requester_phone = None, requester_address = None\<rparr>],
         next_id := Suc (next_id s)\<rparr>"
  by (simp add: handleSubmit_def update_contact_exchanges_def insert_contact_exchange_def
      split: option.splits)




lemma mark_unread_eq:
  "(if n_userid n = u \<and> n_read n = False then n\<lparr>n_read := True\<rparr> else n)
     = (if n_userid n = u then n\<lparr>n_read := True\<rparr> else n)"
  by (cases "n_read n") simp_all

lemma markAllAsRead_stored:
  assumes "\<not> fails e 0"
  shows "fst (markAllAsRead (Some u) fetched e s)
     = s\<lparr>notifications :=
           map (\<lambda>n. if n_userid n = u then n\<lparr>n_read := True\<rparr> else n) (notifications s)\<rparr>"
proof -
  have "fst (markAllAsRead (Some u) fetched e s)
     = s\<lparr>notifications :=
           map (\<lambda>n. if n_userid n = u \<and> n_read n = False then n\<lparr>n_read := True\<rparr> else n)
             (notifications s)\<rparr>"
    using assms by (simp add: markAllAsRead_def update_notifications_read_def)
  then show ?thesis
    by (simp only: mark_unread_eq)
qed

lemma marked_read:
  "n_userid (if n_userid m = u then m\<lparr>n_read := True\<rparr> else m) = u \<Longrightarrow>
   n_read (if n_userid m = u then m\<lparr>n_read := True\<rparr> else m)"
  by (cases "n_userid m = u") simp_all

lemma marked_all_read:
  "\<forall>n \<in> set (map (\<lambda>n. if n_userid n = u then n\<lparr>n_read := True\<rparr> else n) ns).
     n_userid n = u \<longrightarrow> n_read n"
proof (intro ballI impI)
  fix n
  assume "n \<in> set (map (\<lambda>n. if n_userid n = u then n\<lparr>n_read := True\<rparr> else n) ns)"
    and u: "n_userid n = u"
  then obtain m where "n = (if n_userid m = u then m\<lparr>n_read := True\<rparr> else m)"
    unfolding set_map by (elim imageE)
  with u marked_read [where m = m and u = u] show "n_read n"
    by (simp only:)
qed

lemma marked_others:
  "filter (\<lambda>n. n_userid n \<noteq> u)
     (map (\<lambda>n. if n_userid n = u then n\<lparr>n_read := True\<rparr> else n) ns)
   = filter (\<lambda>n. n_userid n \<noteq> u) ns"
  by (induction ns) simp_all

subsection \<open>Requesting a book that is already requested\<close>

text \<open>
  Claim C1, as amended. When the existence query succeeds and exactly one pending request of
  user \<open>u\<close> for book \<open>b\<close> is stored (and, for the extended handler, no request of the book
  is in flight), \<^verbatim>\<open>handleRequestBook\<close> shows the toast ``Already Requested'' and writes
  nothing: the store, and with it the ledger and the notifications, is the one it was
  called in, and so is the set \<^verbatim>\<open>requestingBooks\<close>.
\<close>

theorem duplicate_request_rejected:
  assumes "\<not> fails e 0" and "select_pending s (book_id b) u = [r]"
    and "book_id b \<notin> requestingBooks"
  shows "handleRequestBook (Some u) b e s = (s, Some already_requested_toast) \<and>
         handleRequestBook_ext (Some u) b requestingBooks e s
           = (s, requestingBooks, Some already_requested_toast)"
  using assms by (simp add: handleRequestBook_def handleRequestBook_ext_def single_def)

theorem duplicate_request_rejected_witness:
  "\<not> fails all_ok 0 \<and> select_pending requested_store (book_id dune) 20 = [pending_dune] \<and>
   book_id dune \<notin> ({} :: ident set) \<and>
   handleRequestBook (Some 20) dune all_ok requested_store
     = (requested_store, Some already_requested_toast) \<and>
   handleRequestBook_ext (Some 20) dune {} all_ok requested_store
     = (requested_store, {}, Some already_requested_toast)"
proof -
  have ok: "\<not> fails all_ok 0"
    by (simp add: all_ok_def)
  have one: "select_pending requested_store (book_id dune) 20 = [pending_dune]"
    by (simp add: select_pending_def scenario_defs)
  have free: "book_id dune \<notin> ({} :: ident set)"
    by simp
  from duplicate_request_rejected [OF ok one free] ok one show ?thesis
    by simp
qed

text \<open>
  The claim as stated fails when the existence query itself fails: user 20 has a pending
  request for ``Dune'', the second \<^verbatim>\<open>handleRequestBook\<close> inserts another one and a
  second notification, and shows ``Request Sent''.
\<close>

theorem duplicate_request_counterexample:
  "select_pending requested_store (book_id dune) 20 = [pending_dune] \<and>
   handleRequestBook (Some 20) dune (only_fails 0) requested_store =
     (requested_store
        \<lparr>book_requests :=
           [pending_dune,
            pending_dune\<lparr>br_id := 102, br_created_at := 6, br_updated_at := 6\<rparr>],
         notifications :=
           [new_request_notification,
            new_request_notification\<lparr>n_id := 103, n_createdat := 6\<rparr>],
         next_id := 104\<rparr>,
      Some (request_sent_toast dune)) \<and>
   fst (handleRequestBook (Some 20) dune (only_fails 0) requested_store) \<noteq> requested_store \<and>
   snd (handleRequestBook (Some 20) dune (only_fails 0) requested_store)
     \<noteq> Some already_requested_toast"
  by (simp add: handleRequestBook_def store_client_defs scenario_defs request_message_def
      request_sent_toast_def already_requested_toast_def)

text \<open>With several pending requests of the user for the book stored, \<^verbatim>\<open>.single()\<close>
  gives no data either, and the duplicate is not detected although every call succeeds.\<close>

lemma several_pending_not_detected:
  assumes "length (select_pending s (book_id b) u) \<ge> 2"
  shows "snd (handleRequestBook (Some u) b e s) \<noteq> Some already_requested_toast"
proof -
  from assms obtain r r' rs where "select_pending s (book_id b) u = r # r' # rs"
    by (cases "select_pending s (book_id b) u" rule: remdups_adj.cases) auto
  then show ?thesis
    by (simp add: handleRequestBook_def single_def insert_book_request_def
        insert_notification_def already_requested_toast_def request_error_toast_def
        request_sent_toast_def)
qed

subsection \<open>Requesting a book\<close>

text \<open>
  Claim C2. When user \<open>u\<close> is signed in, no pending request of \<open>u\<close> for book \<open>b\<close> is
  stored and no store call fails, \<^verbatim>\<open>handleRequestBook\<close> appends exactly one request to
  the ledger, pending and with the message
  \<^verbatim>\<open>I would like to borrow "<title>" by <author>.\<close>, and exactly one notification
  of type \<^verbatim>\<open>book_request\<close> for the donor of \<open>b\<close>; the extended handler appends, after
  it, one notification of type \<^verbatim>\<open>request_sent\<close> for \<open>u\<close>. Nothing else in the store
  changes, and the handler shows ``Request Sent''. The handler does not compare \<open>u\<close> with
  the donor (the button is not rendered on the user's own books), so the statement holds for
  every \<open>u\<close>.
\<close>

theorem request_created:
  assumes "\<forall>k. \<not> fails e k" and "select_pending s (book_id b) u = []"
    and "book_id b \<notin> requestingBooks"
  shows
    "handleRequestBook (Some u) b e s =
       (s\<lparr>book_requests := book_requests s @
            [\<lparr>br_id = next_id s, br_status = ''pending'',
              br_message =
                ''I would like to borrow '' @ dq @ book_title b @ dq @ '' by '' @ book_author b @ ''.'',
              br_created_at = now e, br_updated_at = now e,
              br_book_id = book_id b, br_requester_id = u, br_donor_id = book_donorid b\<rparr>],
          notifications := notifications s @
            [\<lparr>n_id = Suc (next_id s), n_userid = book_donorid b, n_type = ''book_request'',
              n_title = ''New Book Request'',
              n_message = ''Someone wants to borrow your book '' @ dq @ book_title b @ dq,
              n_read = False, n_createdat = now e\<rparr>],
          next_id := Suc (Suc (next_id s))\<rparr>,
        Some (request_sent_toast b)) \<and>
     handleRequestBook_ext (Some u) b requestingBooks e s =
       (s\<lparr>book_requests := book_requests s @
            [\<lparr>br_id = next_id s, br_status = ''pending'',
              br_message =
                ''I would like to borrow '' @ dq @ book_title b @ dq @ '' by '' @ book_author b @ ''.'',
              br_created_at = now e, br_updated_at = now e,
              br_book_id = book_id b, br_requester_id = u, br_donor_id = book_donorid b\<rparr>],
          notifications := notifications s @
            [\<lparr>n_id = Suc (next_id s), n_userid = book_donorid b, n_type = ''book_request'',
              n_title = ''New Book Request'',
              n_message = ''Someone wants to borrow your book '' @ dq @ book_title b @ dq,
              n_read = False, n_createdat = now e\<rparr>,
             \<lparr>n_id = Suc (Suc (next_id s)), n_userid = u, n_type = ''request_sent'',
              n_title = ''Request Sent'',
              n_message = ''Your request for '' @ dq @ book_title b @ dq @ '' has been sent to the donor.'',
              n_read = False, n_createdat = now e\<rparr>],
          next_id := Suc (Suc (Suc (next_id s)))\<rparr>,
        requestingBooks, Some (request_sent_toast b))"
  using assms
  by (simp add: handleRequestBook_def handleRequestBook_ext_def store_client_defs
      request_message_def)

theorem request_created_witness:
  "(\<forall>k. \<not> fails all_ok k) \<and> select_pending empty_store (book_id dune) 20 = [] \<and>
   book_id dune \<notin> ({} :: ident set) \<and>
   handleRequestBook (Some 20) dune all_ok empty_store
     = (requested_store, Some (request_sent_toast dune)) \<and>
   handleRequestBook_ext (Some 20) dune {} all_ok empty_store
     = (requested_store
          \<lparr>notifications :=
             [new_request_notification,
              \<lparr>n_id = 102, n_userid = 20, n_type = ''request_sent'', n_title = ''Request Sent'',
               n_message = ''Your request for '' @ dq @ ''Dune'' @ dq @ '' has been sent to the donor.'',
               n_read = False, n_createdat = 5\<rparr>],
           next_id := 103\<rparr>,
        {}, Some (request_sent_toast dune))"
proof -
  have ok: "\<forall>k. \<not> fails all_ok k"
    by (simp add: all_ok_def)
  have none: "select_pending empty_store (book_id dune) 20 = []"
    by (simp add: select_pending_def scenario_defs)
  have free: "book_id dune \<notin> ({} :: ident set)"
    by simp
  from request_created [OF ok none free] ok none show ?thesis
    by (simp add: scenario_defs)
qed

subsection \<open>Responding to a request\<close>

text \<open>
  Claim C3, as amended. \<^verbatim>\<open>handleRequestResponse\<close> applies its decision whatever the
  current status of the request is: when the update succeeds, every stored request with the
  given id gets the decided status (and, in the extended handler, the time of the call as
  \<^verbatim>\<open>updated_at\<close>), also when it was approved or rejected before, and no other request
  changes. The extended handler does nothing for a request id that is in
  \<^verbatim>\<open>processingRequests\<close>.
\<close>

theorem respond_overwrites_status:
  assumes "\<not> fails e 0"
  shows
    "book_requests (fst (handleRequestResponse requestId d requesterId bookTitle e s))
       = map (\<lambda>r. if br_id r = requestId then r\<lparr>br_status := decision_text d\<rparr> else r)
           (book_requests s) \<and>
     book_requests (fst (handleRequestResponse_ext user processingRequests requestId d requesterId
                           bookTitle e s))
       = (if requestId \<in> processingRequests then book_requests s
          else map (\<lambda>r. if br_id r = requestId
                         then r\<lparr>br_status := decision_text d, br_updated_at := now e\<rparr> else r)
                 (book_requests s))"
  using assms
  by (simp add: handleRequestResponse_def handleRequestResponse_ext_def store_client_defs Let_def
      split: prod.splits option.splits)

theorem respond_overwrites_status_witness:
  "\<not> fails all_ok 0 \<and>
   map br_status (book_requests (fst (handleRequestResponse 100 Rejected 20 ''Dune'' all_ok approved_store)))
     = [''rejected''] \<and>
   map br_status (book_requests (fst (handleRequestResponse_ext (Some 10) {} 100 Rejected 20 ''Dune'' all_ok approved_store)))
     = [''rejected'']"
proof -
  have ok: "\<not> fails all_ok 0"
    by (simp add: all_ok_def)
  from respond_overwrites_status [OF ok, of 100 Rejected 20 "''Dune''" approved_store "Some 10" "{}"] ok
  show ?thesis
    by (simp add: scenario_defs decision_text_def)
qed

text \<open>
  The claim as stated fails: on the pending request for ``Dune'', a response
  \<^verbatim>\<open>approved\<close> followed by a response \<^verbatim>\<open>rejected\<close> both succeed, and the stored
  request is first approved and then rejected.
\<close>

theorem respond_twice_counterexample:
  "map br_status (book_requests requested_store) = [''pending''] \<and>
   snd (handleRequestResponse 100 Approved 20 ''Dune'' all_ok requested_store)
     = Some (request_updated_toast Approved) \<and>
   map br_status
     (book_requests (fst (handleRequestResponse 100 Approved 20 ''Dune'' all_ok requested_store)))
     = [''approved''] \<and>
   snd (handleRequestResponse 100 Rejected 20 ''Dune'' all_ok
          (fst (handleRequestResponse 100 Approved 20 ''Dune'' all_ok requested_store)))
     = Some (request_updated_toast Rejected) \<and>
   map br_status
     (book_requests
        (fst (handleRequestResponse 100 Rejected 20 ''Dune'' all_ok
                (fst (handleRequestResponse 100 Approved 20 ''Dune'' all_ok requested_store)))))
     = [''rejected'']"
  by (simp add: handleRequestResponse_def store_client_defs scenario_defs decision_text_def)

(* C4 *)

text \<open>
  Claim C4, as amended. For a stored request \<open>r\<close> and a decision \<open>d\<close>, a response in
  which no store call fails, invoked as the buttons invoke it (with the id and the requester
  of \<open>r\<close>), sets the status of \<open>r\<close> to \<open>d\<close> and appends a notification of type
  \<^verbatim>\<open>request_response\<close> for the requester of \<open>r\<close>, titled ``Book Request Approved''
  or ``Book Request Rejected''. The extended handler also sets \<^verbatim>\<open>updated_at\<close> of \<open>r\<close>
  to the time of the call and appends a notification of type \<^verbatim>\<open>request_action\<close> for
  the signed-in user, the donor; the base handler writes the column \<^verbatim>\<open>status\<close> only,
  so \<^verbatim>\<open>updated_at\<close> of \<open>r\<close> stays what it was.
\<close>

theorem respond_success:
  assumes "\<forall>k. \<not> fails e k" and "r \<in> set (book_requests s)"
    and "br_id r \<notin> processingRequests"
  shows
    "handleRequestResponse_ext (Some uid) processingRequests (br_id r) d (br_requester_id r)
         bookTitle e s =
       (s\<lparr>book_requests :=
            map (\<lambda>x. if br_id x = br_id r
                      then x\<lparr>br_status := decision_text d, br_updated_at := now e\<rparr> else x)
              (book_requests s),
          notifications := notifications s @
            [\<lparr>n_id = next_id s, n_userid = br_requester_id r, n_type = ''request_response'',
              n_title = ''Book Request '' @ (if d = Approved then ''Approved'' else ''Rejected''),
              n_message = ''Your request for '' @ dq @ bookTitle @ dq @ '' has been ''
                 @ decision_text d @ ''.'',
              n_read = False, n_createdat = now e\<rparr>,
             \<lparr>n_id = Suc (next_id s), n_userid = uid, n_type = ''request_action'',
              n_title = ''Request Updated'',
              n_message = ''You have '' @ decision_text d @ '' the request for ''
                 @ dq @ bookTitle @ dq @ ''.'',
              n_read = False, n_createdat = now e\<rparr>],
          next_id := Suc (Suc (next_id s))\<rparr>,
        processingRequests, Some (request_updated_toast d)) \<and>
     r\<lparr>br_status := decision_text d, br_updated_at := now e\<rparr>
       \<in> set (book_requests
                (fst (handleRequestResponse_ext (Some uid) processingRequests (br_id r) d
                        (br_requester_id r) bookTitle e s))) \<and>
     handleRequestResponse (br_id r) d (br_requester_id r) bookTitle e s =
       (s\<lparr>book_requests :=
            map (\<lambda>x. if br_id x = br_id r then x\<lparr>br_status := decision_text d\<rparr> else x)
              (book_requests s),
          notifications := notifications s @
            [\<lparr>n_id = next_id s, n_userid = br_requester_id r, n_type = ''request_response'',
              n_title = ''Book Request '' @ (if d = Approved then ''Approved'' else ''Rejected''),
              n_message = ''Your request for '' @ dq @ bookTitle @ dq @ '' has been ''
                 @ decision_text d @ ''.'',
              n_read = False, n_createdat = now e\<rparr>],
          next_id := Suc (next_id s)\<rparr>,
        Some (request_updated_toast d)) \<and>
     r\<lparr>br_status := decision_text d\<rparr>
       \<in> set (book_requests
                (fst (handleRequestResponse (br_id r) d (br_requester_id r) bookTitle e s)))"
proof -
  have ext: "handleRequestResponse_ext (Some uid) processingRequests (br_id r) d (br_requester_id r)
         bookTitle e s =
       (s\<lparr>book_requests :=
            map (\<lambda>x. if br_id x = br_id r
                      then x\<lparr>br_status := decision_text d, br_updated_at := now e\<rparr> else x)
              (book_requests s),
          notifications := notifications s @
            [\<lparr>n_id = next_id s, n_userid = br_requester_id r, n_type = ''request_response'',
              n_title = ''Book Request '' @ (if d = Approved then ''Approved'' else ''Rejected''),
              n_message = ''Your request for '' @ dq @ bookTitle @ dq @ '' has been ''
                 @ decision_text d @ ''.'',
              n_read = False, n_createdat = now e\<rparr>,
             \<lparr>n_id = Suc (next_id s), n_userid = uid, n_type = ''request_action'',
              n_title = ''Request Updated'',
              n_message = ''You have '' @ decision_text d @ '' the request for ''
                 @ dq @ bookTitle @ dq @ ''.'',
              n_read = False, n_createdat = now e\<rparr>],
          next_id := Suc (Suc (next_id s))\<rparr>,
        processingRequests, Some (request_updated_toast d))"
    using assms(1,3)
    by (simp add: handleRequestResponse_ext_def store_client_defs Let_def response_title_def
        response_message_def)
  have base: "handleRequestResponse (br_id r) d (br_requester_id r) bookTitle e s =
       (s\<lparr>book_requests :=
            map (\<lambda>x. if br_id x = br_id r then x\<lparr>br_status := decision_text d\<rparr> else x)
              (book_requests s),
          notifications := notifications s @
            [\<lparr>n_id = next_id s, n_userid = br_requester_id r, n_type = ''request_response'',
              n_title = ''Book Request '' @ (if d = Approved then ''Approved'' else ''Rejected''),
              n_message = ''Your request for '' @ dq @ bookTitle @ dq @ '' has been ''
                 @ decision_text d @ ''.'',
              n_read = False, n_createdat = now e\<rparr>],
          next_id := Suc (next_id s)\<rparr>,
        Some (request_updated_toast d))"
    using assms(1)
    by (simp add: handleRequestResponse_def store_client_defs response_title_def
        response_message_def)
  have in_ext: "r\<lparr>br_status := decision_text d, br_updated_at := now e\<rparr>
       \<in> set (map (\<lambda>x. if br_id x = br_id r
                      then x\<lparr>br_status := decision_text d, br_updated_at := now e\<rparr> else x)
              (book_requests s))"
    using assms(2) by (force simp: image_iff)
  have in_base: "r\<lparr>br_status := decision_text d\<rparr>
       \<in> set (map (\<lambda>x. if br_id x = br_id r then x\<lparr>br_status := decision_text d\<rparr> else x)
              (book_requests s))"
    using assms(2) by (force simp: image_iff)
  show ?thesis
    unfolding ext base using in_ext in_base by simp
qed

theorem respond_success_witness:
  "(\<forall>k. \<not> fails all_ok k) \<and> pending_dune \<in> set (book_requests requested_store) \<and>
   br_id pending_dune \<notin> ({} :: ident set) \<and>
   pending_dune\<lparr>br_status := ''approved'', br_updated_at := 5\<rparr>
     \<in> set (book_requests
              (fst (handleRequestResponse_ext (Some 10) {} 100 Approved 20 ''Dune'' all_ok
                      requested_store))) \<and>
   pending_dune\<lparr>br_status := ''approved''\<rparr>
     \<in> set (book_requests
              (fst (handleRequestResponse 100 Approved 20 ''Dune'' all_ok requested_store)))"
proof -
  have ok: "\<forall>k. \<not> fails all_ok k"
    by (simp add: all_ok_def)
  have stored: "pending_dune \<in> set (book_requests requested_store)"
    by (simp add: requested_store_def)
  have free: "br_id pending_dune \<notin> ({} :: ident set)"
    by simp
  have id: "br_id pending_dune = 100" and requester: "br_requester_id pending_dune = 20"
    by (simp_all add: pending_dune_def)
  have t: "now all_ok = 5" and d: "decision_text Approved = ''approved''"
    by (simp_all add: all_ok_def decision_text_def)
  note w = respond_success [OF ok stored free, of 10 Approved "''Dune''"]
  have ext: "pending_dune\<lparr>br_status := ''approved'', br_updated_at := 5\<rparr>
     \<in> set (book_requests
              (fst (handleRequestResponse_ext (Some 10) {} 100 Approved 20 ''Dune'' all_ok
                      requested_store)))"
    using w [THEN conjunct2, THEN conjunct1] by (simp only: id requester t d)
  have base: "pending_dune\<lparr>br_status := ''approved''\<rparr>
     \<in> set (book_requests
              (fst (handleRequestResponse 100 Approved 20 ''Dune'' all_ok requested_store)))"
    using w [THEN conjunct2, THEN conjunct2, THEN conjunct2] by (simp only: id requester t d)
  from ok stored free ext base show ?thesis
    by (intro conjI)
qed

text \<open>
  The claim as stated fails for the base handler: approving the request for ``Dune'' at
  time 9 succeeds and leaves \<^verbatim>\<open>updated_at\<close> at 5, the time of the request's creation.
\<close>

theorem respond_timestamp_counterexample:
  "br_updated_at pending_dune = 5 \<and>
   snd (handleRequestResponse 100 Approved 20 ''Dune'' \<lparr>fails = (\<lambda>k. False), now = 9\<rparr> requested_store)
     = Some (request_updated_toast Approved) \<and>
   book_requests
     (fst (handleRequestResponse 100 Approved 20 ''Dune'' \<lparr>fails = (\<lambda>k. False), now = 9\<rparr>
             requested_store))
     = [pending_dune\<lparr>br_status := ''approved''\<rparr>] \<and>
   map br_updated_at
     (book_requests
        (fst (handleRequestResponse 100 Approved 20 ''Dune'' \<lparr>fails = (\<lambda>k. False), now = 9\<rparr>
                requested_store)))
     = [5]"
  by (simp add: handleRequestResponse_def store_client_defs scenario_defs decision_text_def)

(* C5 *)

subsection \<open>Failure of the notification write\<close>

text \<open>
  Claim C5, as amended. When the request is inserted (or the status updated) and the
  notification write that follows fails, nothing is rolled back: the request stays in the
  ledger (the status stays updated) in every variant. The extended handlers, whose
  \<^verbatim>\<open>createNotification\<close> swallows the failure, still show the success toast, whichever of
  their notification writes fail; the base handlers throw the notification's error and show
  the error toast.
\<close>

theorem notification_failure_keeps_primary:
  assumes "select_pending s (book_id b) u = []" and "\<not> fails e 1" and "fails e 2"
    and "book_id b \<notin> requestingBooks"
    and "\<not> fails e' 0" and "fails e' 1" and "requestId \<notin> processingRequests"
  shows
    "(let created = \<lparr>br_id = next_id s, br_status = ''pending'', br_message = request_message b,
                      br_created_at = now e, br_updated_at = now e,
                      br_book_id = book_id b, br_requester_id = u, br_donor_id = book_donorid b\<rparr>
      in book_requests (fst (handleRequestBook_ext (Some u) b requestingBooks e s))
           = book_requests s @ [created] \<and>
         snd (handleRequestBook_ext (Some u) b requestingBooks e s)
           = (requestingBooks, Some (request_sent_toast b)) \<and>
         handleRequestBook (Some u) b e s
           = (s\<lparr>book_requests := book_requests s @ [created], next_id := Suc (next_id s)\<rparr>,
              Some request_error_toast)) \<and>
     book_requests (fst (handleRequestResponse_ext user processingRequests requestId d requesterId
                           bookTitle e' s))
       = map (\<lambda>r. if br_id r = requestId
                   then r\<lparr>br_status := decision_text d, br_updated_at := now e'\<rparr> else r)
           (book_requests s) \<and>
     snd (handleRequestResponse_ext user processingRequests requestId d requesterId bookTitle e' s)
       = (processingRequests, Some (request_updated_toast d)) \<and>
     handleRequestResponse requestId d requesterId bookTitle e' s
       = (s\<lparr>book_requests :=
              map (\<lambda>r. if br_id r = requestId then r\<lparr>br_status := decision_text d\<rparr> else r)
                (book_requests s)\<rparr>,
          Some update_error_toast)"
proof -
  have create_ext:
    "book_requests (fst (handleRequestBook_ext (Some u) b requestingBooks e s))
       = book_requests s @
           [\<lparr>br_id = next_id s, br_status = ''pending'', br_message = request_message b,
             br_created_at = now e, br_updated_at = now e,
             br_book_id = book_id b, br_requester_id = u, br_donor_id = book_donorid b\<rparr>] \<and>
     snd (handleRequestBook_ext (Some u) b requestingBooks e s)
       = (requestingBooks, Some (request_sent_toast b))"
    using assms(1,2,4)
    by (simp add: handleRequestBook_ext_def store_client_defs Let_def)
  have create_base:
    "handleRequestBook (Some u) b e s
       = (s\<lparr>book_requests := book_requests s @
               [\<lparr>br_id = next_id s, br_status = ''pending'', br_message = request_message b,
                 br_created_at = now e, br_updated_at = now e,
                 br_book_id = book_id b, br_requester_id = u, br_donor_id = book_donorid b\<rparr>],
             next_id := Suc (next_id s)\<rparr>,
          Some request_error_toast)"
    using assms(1,2,3)
    by (simp add: handleRequestBook_def store_client_defs)
  have respond_ext:
    "book_requests (fst (handleRequestResponse_ext user processingRequests requestId d requesterId
                           bookTitle e' s))
       = map (\<lambda>r. if br_id r = requestId
                   then r\<lparr>br_status := decision_text d, br_updated_at := now e'\<rparr> else r)
           (book_requests s) \<and>
     snd (handleRequestResponse_ext user processingRequests requestId d requesterId bookTitle e' s)
       = (processingRequests, Some (request_updated_toast d))"
    using assms(5,7)
    by (simp add: handleRequestResponse_ext_def store_client_defs Let_def split: option.splits)
  have respond_base:
    "handleRequestResponse requestId d requesterId bookTitle e' s
       = (s\<lparr>book_requests :=
              map (\<lambda>r. if br_id r = requestId then r\<lparr>br_status := decision_text d\<rparr> else r)
                (book_requests s)\<rparr>,
          Some update_error_toast)"
    using assms(5,6)
    by (simp add: handleRequestResponse_def store_client_defs)
  from create_ext create_base respond_ext respond_base show ?thesis
    by (simp add: Let_def)
qed

theorem notification_failure_keeps_primary_witness:
  "select_pending requested_store (book_id dune) 30 = [] \<and> \<not> fails (only_fails 2) 1 \<and>
   fails (only_fails 2) 2 \<and> book_id dune \<notin> ({} :: ident set) \<and>
   \<not> fails (only_fails 1) 0 \<and> fails (only_fails 1) 1 \<and> (100 :: ident) \<notin> {} \<and>
   snd (handleRequestBook_ext (Some 30) dune {} (only_fails 2) requested_store)
     = ({}, Some (request_sent_toast dune)) \<and>
   snd (handleRequestBook (Some 30) dune (only_fails 2) requested_store)
     = Some request_error_toast \<and>
   length (book_requests (fst (handleRequestBook (Some 30) dune (only_fails 2) requested_store)))
     = 2 \<and>
   handleRequestResponse 100 Approved 20 ''Dune'' (only_fails 1) requested_store
     = (approved_store, Some update_error_toast)"
proof -
  have none: "select_pending requested_store (book_id dune) 30 = []"
    by (simp add: select_pending_def scenario_defs)
  have ins: "\<not> fails (only_fails 2) 1" and notif: "fails (only_fails 2) 2"
    and upd: "\<not> fails (only_fails 1) 0" and notif': "fails (only_fails 1) 1"
    by (simp_all add: only_fails_def)
  have free: "book_id dune \<notin> ({} :: ident set)" and free': "(100 :: ident) \<notin> {}"
    by simp_all
  from notification_failure_keeps_primary [OF none ins notif free upd notif' free',
      of "Some 10" Approved 20 "''Dune''"]
    none ins notif upd notif'
  show ?thesis
    by (simp add: Let_def scenario_defs decision_text_def)
qed

text \<open>
  The claim as stated fails for the base handlers: when only the notification write fails,
  the request for ``Dune'' is inserted (approved) and the handler shows the error toast, not
  the success toast.
\<close>

theorem notification_failure_counterexample:
  "handleRequestBook (Some 20) dune (only_fails 2) empty_store
     = (empty_store\<lparr>book_requests := [pending_dune\<lparr>br_created_at := 6, br_updated_at := 6\<rparr>],
                    next_id := 101\<rparr>,
        Some request_error_toast) \<and>
   toast_destructive request_error_toast \<and>
   request_error_toast \<noteq> request_sent_toast dune \<and>
   handleRequestResponse 100 Approved 20 ''Dune'' (only_fails 1) requested_store
     = (approved_store, Some update_error_toast) \<and>
   toast_destructive update_error_toast \<and>
   update_error_toast \<noteq> request_updated_toast Approved"
  by (simp add: handleRequestBook_def handleRequestResponse_def store_client_defs scenario_defs
      request_message_def request_error_toast_def request_sent_toast_def update_error_toast_def
      request_updated_toast_def decision_text_def)

subsection \<open>Sharing contact details\<close>




text \<open>
  Claim C7. Whatever \<^verbatim>\<open>handleSubmit\<close> is called with and whether or not its store call
  succeeds, every exchange that was stored before is still stored at its place with its id,
  its request and the counterpart's phone and address unchanged; an exchange the submit
  adds has neither a phone nor an address of the counterpart; and the requests and the
  notifications are unchanged. The submit either writes nothing, or overwrites by
  \<^verbatim>\<open>updateData\<close> (the two columns of the caller's own role) the exchanges of the
  request, or adds one exchange that has the caller's own two columns only.
\<close>

theorem submit_writes_own_columns_only:
  "(let rows = contact_exchanges s;
        s' = fst (handleSubmit user isDonor requestId existingExchange phone address e s);
        kept = (\<lambda>x. (ce_id x, ce_request_id x, counterpart_columns isDonor x))
    in map kept (take (length rows) (contact_exchanges s')) = map kept rows \<and>
       (\<forall>x \<in> set (drop (length rows) (contact_exchanges s')).
          counterpart_columns isDonor x = (None, None)) \<and>
       book_requests s' = book_requests s \<and> notifications s' = notifications s \<and>
       (s' = s \<or>
        s' = s\<lparr>contact_exchanges :=
                 map (\<lambda>x. if ce_request_id x = requestId
                           then updateData isDonor phone address x else x) rows\<rparr> \<or>
        s' = s\<lparr>contact_exchanges := rows @
                 [updateData isDonor phone address
                    \<lparr>ce_id = next_id s, ce_request_id = requestId,
                     donor_phone = None, donor_address = None,
                     requester_phone = None, requester_address = None\<rparr>],
               next_id := Suc (next_id s)\<rparr>))"
proof -
  let ?s' = "fst (handleSubmit user isDonor requestId existingExchange phone address e s)"
  let ?kept = "\<lambda>x. (ce_id x, ce_request_id x, counterpart_columns isDonor x)"
  have map_update:
    "map ?kept (map (\<lambda>x. if ce_request_id x = requestId
                          then updateData isDonor phone address x else x) xs) = map ?kept xs"
    for xs
    by (induction xs) simp_all
  from handleSubmit_cases [of user isDonor requestId existingExchange phone address e s]
  consider (unchanged) "?s' = s"
    | (updated) "?s' = s\<lparr>contact_exchanges :=
           map (\<lambda>x. if ce_request_id x = requestId then updateData isDonor phone address x else x)
             (contact_exchanges s)\<rparr>"
    | (inserted) "?s' = s\<lparr>contact_exchanges := contact_exchanges s @
           [updateData isDonor phone address
              \<lparr>ce_id = next_id s, ce_request_id = requestId,
               donor_phone = None, donor_address = None,
               requester_phone = None, requester_address = None\<rparr>],
         next_id := Suc (next_id s)\<rparr>"
    by blast
  then show ?thesis
  proof cases
    case unchanged
    then show ?thesis by (simp add: Let_def)
  next
    case updated
    then show ?thesis using map_update by (simp add: Let_def)
  next
    case inserted
    then show ?thesis by (simp add: Let_def counterpart_columns_def updateData_def)
  qed
qed

theorem submit_writes_own_columns_only_witness:
  "map (\<lambda>x. (ce_id x, ce_request_id x, counterpart_columns False x))
     (take 1
        (contact_exchanges
           (fst (handleSubmit (Some 20) False 100 (Some donor_shared) ''555-0100'' ''12 Oak St''
                   all_ok (approved_store\<lparr>contact_exchanges := [donor_shared]\<rparr>)))))
     = [(102, 100, Some ''555-0200'', Some ''9 Elm Ave'')]"
proof -
  note w = submit_writes_own_columns_only
    [of "approved_store\<lparr>contact_exchanges := [donor_shared]\<rparr>" "Some 20" False 100
        "Some donor_shared" "''555-0100''" "''12 Oak St''" all_ok]
  from w [unfolded Let_def, THEN conjunct1] show ?thesis
    by (simp add: donor_shared_def counterpart_columns_def)
qed

subsection \<open>Revealing the counterpart's contact details\<close>

text \<open>
  Claim C8, as amended. The component renders the counterpart's phone and address exactly
  when it has an exchange in which the viewer's own phone is set and the counterpart's phone
  is set: the reveal is conditioned on the viewer having shared. While the viewer's own
  phone is not set, or the component has no exchange, it renders the form instead, whatever
  the counterpart has shared; when the viewer's phone is set and the counterpart's is not,
  it renders the notice alone.
\<close>

theorem counterpart_shown_only_after_sharing:
  "ContactExchange_render isDonor None = ShareForm \<and>
   (\<not> truthy (if isDonor then donor_phone x else requester_phone x) \<longrightarrow>
      ContactExchange_render isDonor (Some x) = ShareForm) \<and>
   (truthy (if isDonor then donor_phone x else requester_phone x) \<longrightarrow>
      ContactExchange_render isDonor (Some x) =
        SharedNotice
          (case fst (counterpart_columns isDonor x) of
             None \<Rightarrow> None
           | Some q \<Rightarrow> if q \<noteq> [] then Some (q, snd (counterpart_columns isDonor x)) else None)) \<and>
   (ContactExchange_render isDonor existingExchange = SharedNotice (Some (p, a)) \<longleftrightarrow>
      (\<exists>y. existingExchange = Some y \<and>
           truthy (if isDonor then donor_phone y else requester_phone y) \<and>
           counterpart_columns isDonor y = (Some p, a) \<and> p \<noteq> []))"
proof (intro conjI impI)
  show "ContactExchange_render isDonor None = ShareForm"
    by (simp add: ContactExchange_render_def column_of_def truthy_def)
next
  assume "\<not> truthy (if isDonor then donor_phone x else requester_phone x)"
  then show "ContactExchange_render isDonor (Some x) = ShareForm"
    by (cases isDonor) (simp_all add: ContactExchange_render_def column_of_def)
next
  assume "truthy (if isDonor then donor_phone x else requester_phone x)"
  then show "ContactExchange_render isDonor (Some x) =
        SharedNotice
          (case fst (counterpart_columns isDonor x) of
             None \<Rightarrow> None
           | Some q \<Rightarrow> if q \<noteq> [] then Some (q, snd (counterpart_columns isDonor x)) else None)"
    by (cases isDonor)
       (simp_all add: ContactExchange_render_def column_of_def counterpart_columns_def
          split: option.splits)
next
  show "ContactExchange_render isDonor existingExchange = SharedNotice (Some (p, a)) \<longleftrightarrow>
      (\<exists>y. existingExchange = Some y \<and>
           truthy (if isDonor then donor_phone y else requester_phone y) \<and>
           counterpart_columns isDonor y = (Some p, a) \<and> p \<noteq> [])"
  proof (cases existingExchange)
    case None
    then show ?thesis
      by (simp add: ContactExchange_render_def column_of_def truthy_def)
  next
    case (Some y)
    show ?thesis
    proof (cases isDonor)
      case True
      with Some show ?thesis
        by (cases "requester_phone y")
           (auto simp add: ContactExchange_render_def column_of_def counterpart_columns_def)
    next
      case False
      with Some show ?thesis
        by (cases "donor_phone y")
           (auto simp add: ContactExchange_render_def column_of_def counterpart_columns_def)
    qed
  qed
qed

theorem counterpart_shown_only_after_sharing_witness:
  "\<not> truthy (requester_phone donor_shared) \<and>
   ContactExchange_render False (Some donor_shared) = ShareForm \<and>
   truthy (donor_phone donor_shared) \<and>
   ContactExchange_render True (Some donor_shared) = SharedNotice None \<and>
   ContactExchange_render False
     (Some (donor_shared\<lparr>requester_phone := Some ''555-0100'',
                          requester_address := Some ''12 Oak St''\<rparr>))
     = SharedNotice (Some (''555-0200'', Some ''9 Elm Ave''))"
proof -
  let ?both = "donor_shared\<lparr>requester_phone := Some ''555-0100'',
                            requester_address := Some ''12 Oak St''\<rparr>"
  have unshared: "\<not> truthy (if False then donor_phone donor_shared
                              else requester_phone donor_shared)"
    by (simp add: truthy_def donor_shared_def)
  have shared: "truthy (if True then donor_phone donor_shared else requester_phone donor_shared)"
    by (simp add: truthy_def donor_shared_def)
  have shared': "truthy (if False then donor_phone ?both else requester_phone ?both)"
    by (simp add: truthy_def)
  note form = counterpart_shown_only_after_sharing
    [where isDonor = False and x = donor_shared, THEN conjunct2, THEN conjunct1, THEN mp,
     OF unshared]
  note notice = counterpart_shown_only_after_sharing
    [where isDonor = True and x = donor_shared, THEN conjunct2, THEN conjunct2, THEN conjunct1,
     THEN mp, OF shared]
  note reveal = counterpart_shown_only_after_sharing
    [where isDonor = False and x = ?both, THEN conjunct2, THEN conjunct2, THEN conjunct1,
     THEN mp, OF shared']
  from notice have b: "ContactExchange_render True (Some donor_shared) = SharedNotice None"
    by (simp add: counterpart_columns_def donor_shared_def)
  from reveal have c: "ContactExchange_render False (Some ?both)
     = SharedNotice (Some (''555-0200'', Some ''9 Elm Ave''))"
    by (simp add: counterpart_columns_def donor_shared_def)
  from unshared shared form b c show ?thesis
    by simp
qed

text \<open>
  The claim as stated fails: the donor has shared phone and address, the requester has not,
  and the requester's component renders the form, not the donor's contact details.
\<close>

theorem reveal_counterexample:
  "counterpart_columns False donor_shared = (Some ''555-0200'', Some ''9 Elm Ave'') \<and>
   ContactExchange_render False (Some donor_shared) = ShareForm"
  by (simp add: ContactExchange_render_def column_of_def counterpart_columns_def truthy_def
      donor_shared_def)

subsection \<open>Marking all notifications as read\<close>

text \<open>
  Claim C9. When user \<open>u\<close> is signed in and the update succeeds, \<^verbatim>\<open>markAllAsRead\<close>
  leaves the stored notifications as they were except that \<^verbatim>\<open>read\<close> is true in every
  notification whose recipient is \<open>u\<close>: in particular every notification of \<open>u\<close> is read
  afterwards, and the notifications of the other users, like the rest of the store, are
  unchanged.
\<close>

theorem mark_all_as_read:
  assumes "\<not> fails e 0"
  shows
    "(let s' = fst (markAllAsRead (Some u) fetched e s)
      in notifications s' =
           map (\<lambda>n. if n_userid n = u then n\<lparr>n_read := True\<rparr> else n) (notifications s) \<and>
         (\<forall>n \<in> set (notifications s'). n_userid n = u \<longrightarrow> n_read n) \<and>
         filter (\<lambda>n. n_userid n \<noteq> u) (notifications s')
           = filter (\<lambda>n. n_userid n \<noteq> u) (notifications s) \<and>
         book_requests s' = book_requests s \<and> contact_exchanges s' = contact_exchanges s \<and>
         next_id s' = next_id s)"
proof -
  have sel: "notifications (s\<lparr>notifications := m\<rparr>) = m"
    "book_requests (s\<lparr>notifications := m\<rparr>) = book_requests s"
    "contact_exchanges (s\<lparr>notifications := m\<rparr>) = contact_exchanges s"
    "next_id (s\<lparr>notifications := m\<rparr>) = next_id s" for m
    by simp_all
  from marked_all_read [of u "notifications s"] marked_others [of u "notifications s"]
  show ?thesis
    unfolding Let_def markAllAsRead_stored [OF assms] sel by blast
qed

theorem mark_all_as_read_witness:
  "\<not> fails all_ok 0 \<and>
   notifications
     (fst (markAllAsRead (Some 10) [new_request_notification] all_ok
             (requested_store
                \<lparr>notifications :=
                   [new_request_notification,
                    new_request_notification\<lparr>n_id := 102, n_userid := 20\<rparr>]\<rparr>)))
     = [new_request_notification\<lparr>n_read := True\<rparr>,
        new_request_notification\<lparr>n_id := 102, n_userid := 20\<rparr>]"
proof -
  have ok: "\<not> fails all_ok 0"
    by (simp add: all_ok_def)
  note w = mark_all_as_read
    [OF ok, of 10 "[new_request_notification]"
       "requested_store
          \<lparr>notifications :=
             [new_request_notification,
              new_request_notification\<lparr>n_id := 102, n_userid := 20\<rparr>]\<rparr>"]
  from w [unfolded Let_def, THEN conjunct1] ok show ?thesis
    by (simp add: new_request_notification_def)
qed

text \<open>When no user is signed in or the update fails, nothing is written.\<close>

lemma markAllAsRead_failed:
  "user = None \<or> fails e 0 \<Longrightarrow> fst (markAllAsRead user fetched e s) = s"
  by (cases user) (auto simp add: markAllAsRead_def update_notifications_read_def)

subsection \<open>Failure of the existence query\<close>



end
